theory Spec2Isabelle
  imports Complex_Main "HOL-Library.Word"
begin

section \<open>The P7\_SCOREDATA object of p7\_scoredata.c\<close>

text \<open>
  The development embeds the five functions of \<^verbatim>\<open>p7_scoredata.c\<close>:
  \<^verbatim>\<open>scoredata_GetSSVScoreArrays\<close>, \<^verbatim>\<open>p7_hmm_ScoreDataDestroy\<close>,
  \<^verbatim>\<open>p7_hmm_ScoreDataCreate\<close>, \<^verbatim>\<open>p7_hmm_ScoreDataClone\<close> and
  \<^verbatim>\<open>p7_hmm_ScoreDataComputeRest\<close>.

  Conventions.
  \<^item> C \<^verbatim>\<open>int\<close> values that count positions or symbols (\<^verbatim>\<open>M\<close>, \<^verbatim>\<open>K\<close>, \<^verbatim>\<open>i\<close>,
    \<^verbatim>\<open>j\<close>) are natural numbers: they are never negative in the code, and model lengths
    stay far below the range where \<^verbatim>\<open>(M + 1) * K\<close> or \<^verbatim>\<open>i + j + 1\<close> could leave 32 bits.
  \<^item> C \<^verbatim>\<open>float\<close> and \<^verbatim>\<open>double\<close> values are real numbers: sums and quotients are
    exact. Every loop keeps the order in which the source adds.
  \<^item> An array is a list; the numeric loops are functions from the arrays they read and
    write to the arrays they leave. The content an array has when the loop starts (what
    \<^verbatim>\<open>malloc\<close> returned) is an argument, so a statement about the result holds for
    every content of fresh memory.
\<close>

subsection \<open>Constants, the alphabet and the two profiles\<close>

type_synonym byte = "8 word"

text \<open>
  The constants of \<^verbatim>\<open>hmmer.h\<close> and \<^verbatim>\<open>p7_config.h\<close> that the file uses are
  parameters: the slot layout of \<^verbatim>\<open>gm->rsc\<close> (\<^verbatim>\<open>p7P_NR\<close>, \<^verbatim>\<open>p7P_MSC\<close>), the
  number of transition arrays and the indices of two of them (\<^verbatim>\<open>p7O_NTRANS\<close>,
  \<^verbatim>\<open>p7O_MI\<close>, \<^verbatim>\<open>p7O_II\<close>), and the tail mass \<^verbatim>\<open>p7_DEFAULT_WINDOW_BETA\<close>.
\<close>

record p7_config =
  p7P_NR :: nat
  p7P_MSC :: nat
  p7O_NTRANS :: nat
  p7O_MI :: nat
  p7O_II :: nat
  p7_DEFAULT_WINDOW_BETA :: real

text \<open>
  \<^verbatim>\<open>om->abc\<close>: the alphabet size \<^verbatim>\<open>Kp\<close> and the macro
  \<^verbatim>\<open>esl_abc_XIsResidue(abc, x)\<close>, a predicate on symbol codes.
\<close>

record ESL_ALPHABET =
  Kp :: nat
  XIsResidue :: "nat \<Rightarrow> bool"

text \<open>\<^verbatim>\<open>gm->rsc[x][k]\<close>, the emission scores of the generic profile.\<close>

record P7_PROFILE =
  rsc :: "nat \<Rightarrow> nat \<Rightarrow> real"

text \<open>
  The optimized profile. The three functions of \<^verbatim>\<open>p7_oprofile.c\<close> that fill a buffer of
  the caller are given by what they write: \<open>f k = Some v\<close> when the function stores \<open>v\<close>
  in cell \<open>k\<close> of the buffer, \<open>None\<close> when it leaves that cell as it was.
\<close>

record P7_OPROFILE =
  om_abc :: ESL_ALPHABET
  om_M :: nat
  GetSSVEmissionScoreArray :: "nat \<Rightarrow> byte option"
  GetFwdEmissionScoreArray :: "nat \<Rightarrow> real option"
  GetFwdTransitionArray :: "nat \<Rightarrow> nat \<Rightarrow> real option"

definition fill_array :: "(nat \<Rightarrow> 'a option) \<Rightarrow> 'a list \<Rightarrow> 'a list" where
  "fill_array f arr =
     map (\<lambda>k. case f k of Some v \<Rightarrow> v | None \<Rightarrow> arr ! k) [0..<length arr]"

subsection \<open>Float scores and per-position maxima (lines 78 to 86)\<close>

text \<open>
  The body of the loop over \<^verbatim>\<open>j\<close>: for a residue code the score is copied from the
  profile into \<^verbatim>\<open>ssv_scores_f[i*K + j]\<close> and, when larger, into \<^verbatim>\<open>max_scores[i]\<close>.
\<close>

definition score_cell ::
  "p7_config \<Rightarrow> ESL_ALPHABET \<Rightarrow> P7_PROFILE \<Rightarrow> nat \<Rightarrow> nat \<Rightarrow> nat \<Rightarrow>
   real list \<times> real list \<Rightarrow> real list \<times> real list" where
  "score_cell c abc gm K i j = (\<lambda>(ssv_scores_f, max_scores).
     if XIsResidue abc j then
       let ssv_scores_f = ssv_scores_f[i * K + j := rsc gm j (i * p7P_NR c + p7P_MSC c)];
           max_scores = (if ssv_scores_f ! (i * K + j) > max_scores ! i
                         then max_scores[i := ssv_scores_f ! (i * K + j)] else max_scores)
       in (ssv_scores_f, max_scores)
     else (ssv_scores_f, max_scores))"

definition score_row ::
  "p7_config \<Rightarrow> ESL_ALPHABET \<Rightarrow> P7_PROFILE \<Rightarrow> nat \<Rightarrow> nat \<Rightarrow>
   real list \<times> real list \<Rightarrow> real list \<times> real list" where
  "score_row c abc gm K i = (\<lambda>(ssv_scores_f, max_scores).
     fold (score_cell c abc gm K i) [0..<K] (ssv_scores_f, max_scores[i := 0]))"

definition score_loop ::
  "p7_config \<Rightarrow> ESL_ALPHABET \<Rightarrow> P7_PROFILE \<Rightarrow> nat \<Rightarrow> nat \<Rightarrow>
   real list \<times> real list \<Rightarrow> real list \<times> real list" where
  "score_loop c abc gm K M = fold (score_row c abc gm K) [1..<Suc M]"

subsection \<open>Extension bounds (lines 96 to 111)\<close>

text \<open>
  \<open>F\<close> is \<^verbatim>\<open>data->opt_ext_fwd\<close> and \<open>R\<close> is \<^verbatim>\<open>data->opt_ext_rev\<close>, each an array of rows.
  The first inner loop accumulates while \<^verbatim>\<open>j < 10 && i+j+1 <= M\<close> and hands \<^verbatim>\<open>j\<close> to
  the second, which copies the previous entry into the slots that are left.
  In the second loop \<^verbatim>\<open>j - 1\<close> is never below 0: the outer loop has \<^verbatim>\<open>i < M\<close>, so the
  first loop has run at least once.
\<close>

function ext_sum ::
  "nat \<Rightarrow> real list \<Rightarrow> nat \<Rightarrow> nat \<Rightarrow> real \<Rightarrow> real \<Rightarrow> real list list \<Rightarrow> real list list \<Rightarrow>
   nat \<times> real list list \<times> real list list" where
  "ext_sum M max_scores i j sc_fwd sc_rev F R =
     (if j < 10 \<and> i + j + 1 \<le> M then
        let sc_fwd = sc_fwd + max_scores ! (i + j + 1);
            F = F[i := (F ! i)[j := sc_fwd]];
            sc_rev = sc_rev + max_scores ! (M - i - j);
            R = R[M - i := (R ! (M - i))[j := sc_rev]]
        in ext_sum M max_scores i (Suc j) sc_fwd sc_rev F R
      else (j, F, R))"
  by pat_completeness auto
termination
  by (relation "measure (\<lambda>(M, max_scores, i, j, rest). 10 - j)") auto

function ext_fill ::
  "nat \<Rightarrow> nat \<Rightarrow> nat \<Rightarrow> real list list \<Rightarrow> real list list \<Rightarrow>
   real list list \<times> real list list" where
  "ext_fill M i j F R =
     (if j < 10 then
        let F = F[i := (F ! i)[j := F ! i ! (j - 1)]];
            R = R[M - i := (R ! (M - i))[j := R ! (M - i) ! (j - 1)]]
        in ext_fill M i (Suc j) F R
      else (F, R))"
  by pat_completeness auto
termination
  by (relation "measure (\<lambda>(M, i, j, rest). 10 - j)") auto

definition ext_iter ::
  "nat \<Rightarrow> real list \<Rightarrow> nat \<Rightarrow> real list list \<times> real list list \<Rightarrow>
   real list list \<times> real list list" where
  "ext_iter M max_scores i = (\<lambda>(F, R).
     case ext_sum M max_scores i 0 0 0 F R of (j, F, R) \<Rightarrow> ext_fill M i j F R)"

definition ext_loop ::
  "nat \<Rightarrow> real list \<Rightarrow> real list list \<times> real list list \<Rightarrow>
   real list list \<times> real list list" where
  "ext_loop M max_scores = fold (ext_iter M max_scores) [1..<M]"

subsection \<open>Window weights (lines 341 to 356)\<close>

text \<open>
  The cast \<^verbatim>\<open>(int)\<close> of a \<^verbatim>\<open>double\<close> drops the fraction, towards zero.
  \<open>raw_length\<close> is \<^verbatim>\<open>2 + (int)(log(p7_DEFAULT_WINDOW_BETA / t_mis[i]) / log(t_iis[i]))\<close>
  with the logarithm of the reals.
\<close>

definition c_trunc :: "real \<Rightarrow> int" where
  "c_trunc x = (if 0 \<le> x then \<lfloor>x\<rfloor> else \<lceil>x\<rceil>)"

definition raw_length :: "p7_config \<Rightarrow> real \<Rightarrow> real \<Rightarrow> real" where
  "raw_length c t_mi t_ii =
     real_of_int (2 + c_trunc (ln (p7_DEFAULT_WINDOW_BETA c / t_mi) / ln t_ii))"

text \<open>Lines 341 to 345: the raw lengths and their sum.\<close>

definition raw_step ::
  "p7_config \<Rightarrow> real list \<Rightarrow> real list \<Rightarrow> nat \<Rightarrow> real list \<times> real \<Rightarrow> real list \<times> real" where
  "raw_step c t_mis t_iis i = (\<lambda>(prefix_lengths, sum).
     let prefix_lengths = prefix_lengths[i := raw_length c (t_mis ! i) (t_iis ! i)]
     in (prefix_lengths, sum + prefix_lengths ! i))"

text \<open>
  Lines 341 to 350: \<^verbatim>\<open>prefix_lengths\<close> as it stands when the loop that divides by
  \<^verbatim>\<open>sum\<close> has finished, before line 355 turns it into running sums.
\<close>

definition normalized_weights ::
  "p7_config \<Rightarrow> nat \<Rightarrow> real list \<Rightarrow> real list \<Rightarrow> real list \<Rightarrow> real list" where
  "normalized_weights c M t_mis t_iis prefix_lengths =
     (let (prefix_lengths, sum) = fold (raw_step c t_mis t_iis) [1..<M] (prefix_lengths, 0);
          prefix_lengths = prefix_lengths[M := 0, 0 := 0]
      in fold (\<lambda>i prefix_lengths. prefix_lengths[i := prefix_lengths ! i / sum]) [1..<M]
           prefix_lengths)"

text \<open>
  Lines 352 to 356. With \<^verbatim>\<open>M = 0\<close> line 352 reads \<^verbatim>\<open>prefix_lengths[-1]\<close>, outside
  the array: the result is \<open>None\<close>.
\<close>

definition window_weights ::
  "p7_config \<Rightarrow> nat \<Rightarrow> real list \<Rightarrow> real list \<Rightarrow> real list \<times> real list \<Rightarrow>
   (real list \<times> real list) option" where
  "window_weights c M t_mis t_iis = (\<lambda>(prefix_lengths, suffix_lengths).
     if M = 0 then None
     else
       let prefix_lengths = normalized_weights c M t_mis t_iis prefix_lengths;
           suffix_lengths = suffix_lengths[M := prefix_lengths ! (M - 1)];
           suffix_lengths =
             fold (\<lambda>i suffix_lengths.
                     suffix_lengths[i := suffix_lengths ! (i + 1) + prefix_lengths ! (i - 1)])
               (rev [1..<M]) suffix_lengths;
           prefix_lengths =
             fold (\<lambda>i prefix_lengths.
                     prefix_lengths[i := prefix_lengths ! i + prefix_lengths ! (i - 1)])
               [2..<M] prefix_lengths
       in Some (prefix_lengths, suffix_lengths))"

subsection \<open>Memory\<close>

text \<open>
  A pointer is \<^verbatim>\<open>NULL\<close>, the address of a block, or \<open>Wild\<close>: the indeterminate value of
  a pointer that was never assigned.
\<close>

datatype ptr = Null | Addr nat | Wild

datatype sd_type = p7_sd_std | p7_sd_fm

text \<open>
  Modelled from the spec: the declaration of \<^verbatim>\<open>P7_SCOREDATA\<close> (in \<^verbatim>\<open>hmmer.h\<close>) is not
  part of the sources at hand. The record has the members that \<^verbatim>\<open>p7_scoredata.c\<close>
  names. The spec's data model (section 3) lists the quantized and the float score table
  as two fields of which the mode populates one, and its design notes call them
  independently nullable; accordingly \<open>ssv_scores\<close> and \<open>ssv_scores_f\<close> are two
  members here, each with a value of its own.
\<close>

record P7_SCOREDATA =
  sd_type :: sd_type
  sd_M :: nat
  ssv_scores :: ptr
  ssv_scores_f :: ptr
  prefix_lengths :: ptr
  suffix_lengths :: ptr
  fwd_scores :: ptr
  fwd_transitions :: ptr
  opt_ext_fwd :: ptr
  opt_ext_rev :: ptr

text \<open>
  A block holds bytes, floats, pointers to rows, or one \<^verbatim>\<open>P7_SCOREDATA\<close>. The state of
  memory: the live blocks by address, the next unused address, the number of allocations
  that still succeed (\<^verbatim>\<open>malloc\<close> returns \<^verbatim>\<open>NULL\<close> from then on), the indeterminate
  content that fresh memory shows, and a flag raised by an operation that C leaves
  undefined (release of a pointer that is not a live block, \<^verbatim>\<open>memcpy\<close> beyond a block).
\<close>

datatype obj = Bytes "byte list" | Floats "real list" | Ptrs "ptr list" | Struct P7_SCOREDATA

record mem =
  heap :: "nat \<Rightarrow> obj option"
  brk :: nat
  avail :: nat
  indet_bytes :: "nat \<Rightarrow> byte"
  indet_floats :: "nat \<Rightarrow> real"
  indet_struct :: P7_SCOREDATA
  fault :: bool

datatype esl_status = eslOK | eslEMEM

text \<open>
  Modelled from the spec: the macro \<^verbatim>\<open>ESL_ALLOC(p, size)\<close> (in \<^verbatim>\<open>easel.h\<close>) is not part
  of the sources at hand. Following section 7 of the spec and the \<^verbatim>\<open>ERROR:\<close> labels of
  the file, a failed allocation leaves \<^verbatim>\<open>NULL\<close> in \<^verbatim>\<open>p\<close>, sets \<^verbatim>\<open>status = eslEMEM\<close>
  and jumps to \<^verbatim>\<open>ERROR\<close>; the process goes on. \<open>ESL_ALLOC\<close> returns the pointer; the
  caller takes the \<^verbatim>\<open>ERROR\<close> branch when it is \<open>Null\<close>.
\<close>

definition ESL_ALLOC :: "obj \<Rightarrow> mem \<Rightarrow> ptr \<times> mem" where
  "ESL_ALLOC ob s =
     (if avail s = 0 then (Null, s)
      else (Addr (brk s),
            s\<lparr>heap := (heap s)(brk s \<mapsto> ob), brk := Suc (brk s), avail := avail s - 1\<rparr>))"

definition new_bytes :: "nat \<Rightarrow> mem \<Rightarrow> obj" where
  "new_bytes n s = Bytes (map (indet_bytes s) [0..<n])"

definition new_floats :: "nat \<Rightarrow> mem \<Rightarrow> obj" where
  "new_floats n s = Floats (map (indet_floats s) [0..<n])"

definition new_ptrs :: "nat \<Rightarrow> obj" where
  "new_ptrs n = Ptrs (replicate n Wild)"

definition free :: "ptr \<Rightarrow> mem \<Rightarrow> mem" where
  "free p s =
     (case p of
        Null \<Rightarrow> s
      | Wild \<Rightarrow> s\<lparr>fault := True\<rparr>
      | Addr a \<Rightarrow> (if heap s a = None then s\<lparr>fault := True\<rparr>
                   else s\<lparr>heap := (heap s)(a := None)\<rparr>))"

definition load :: "mem \<Rightarrow> ptr \<Rightarrow> obj option" where
  "load s p = (case p of Addr a \<Rightarrow> heap s a | _ \<Rightarrow> None)"

definition store :: "ptr \<Rightarrow> obj \<Rightarrow> mem \<Rightarrow> mem" where
  "store p ob s =
     (case p of
        Addr a \<Rightarrow> (if heap s a = None then s\<lparr>fault := True\<rparr>
                   else s\<lparr>heap := (heap s)(a \<mapsto> ob)\<rparr>)
      | _ \<Rightarrow> s\<lparr>fault := True\<rparr>)"

text \<open>
  Typed reads. They answer the empty array for a pointer that is not a live block of the
  type; the functions below apply them to pointers that a successful allocation has just
  returned, or check the block first.
\<close>

definition bytes_at :: "mem \<Rightarrow> ptr \<Rightarrow> byte list" where
  "bytes_at s p = (case load s p of Some (Bytes xs) \<Rightarrow> xs | _ \<Rightarrow> [])"

definition floats_at :: "mem \<Rightarrow> ptr \<Rightarrow> real list" where
  "floats_at s p = (case load s p of Some (Floats xs) \<Rightarrow> xs | _ \<Rightarrow> [])"

definition ptrs_at :: "mem \<Rightarrow> ptr \<Rightarrow> ptr list" where
  "ptrs_at s p = (case load s p of Some (Ptrs xs) \<Rightarrow> xs | _ \<Rightarrow> [])"

definition rows_at :: "mem \<Rightarrow> ptr \<Rightarrow> real list list" where
  "rows_at s p = map (floats_at s) (ptrs_at s p)"

text \<open>\<^verbatim>\<open>data->member = v\<close> for the structure at \<open>data\<close>, and \<^verbatim>\<open>tbl[i] = v\<close>.\<close>

definition set_sd :: "ptr \<Rightarrow> (P7_SCOREDATA \<Rightarrow> P7_SCOREDATA) \<Rightarrow> mem \<Rightarrow> mem" where
  "set_sd data f s =
     (case load s data of Some (Struct d) \<Rightarrow> store data (Struct (f d)) s
      | _ \<Rightarrow> s\<lparr>fault := True\<rparr>)"

definition set_row :: "ptr \<Rightarrow> nat \<Rightarrow> ptr \<Rightarrow> mem \<Rightarrow> mem" where
  "set_row tbl i v s =
     (case load s tbl of
        Some (Ptrs xs) \<Rightarrow> (if i < length xs then store tbl (Ptrs (xs[i := v])) s
                           else s\<lparr>fault := True\<rparr>)
      | _ \<Rightarrow> s\<lparr>fault := True\<rparr>)"

text \<open>
  \<^verbatim>\<open>memcpy(dst, src, n * sizeof(element))\<close> between two arrays of one element type: the
  first \<open>n\<close> cells of \<open>dst\<close> become those of \<open>src\<close>.
\<close>

definition memcpy :: "ptr \<Rightarrow> ptr \<Rightarrow> nat \<Rightarrow> mem \<Rightarrow> mem" where
  "memcpy dst src n s =
     (case (load s dst, load s src) of
        (Some (Bytes xs), Some (Bytes ys)) \<Rightarrow>
          (if n \<le> length xs \<and> n \<le> length ys then store dst (Bytes (take n ys @ drop n xs)) s
           else s\<lparr>fault := True\<rparr>)
      | (Some (Floats xs), Some (Floats ys)) \<Rightarrow>
          (if n \<le> length xs \<and> n \<le> length ys then store dst (Floats (take n ys @ drop n xs)) s
           else s\<lparr>fault := True\<rparr>)
      | _ \<Rightarrow> s\<lparr>fault := True\<rparr>)"

text \<open>
  A sequence of blocks of statements, each of which may leave through \<^verbatim>\<open>goto ERROR\<close>:
  the first block that answers \<open>eslEMEM\<close> ends the sequence.
\<close>

fun steps :: "(mem \<Rightarrow> esl_status \<times> mem) list \<Rightarrow> mem \<Rightarrow> esl_status \<times> mem" where
  "steps [] s = (eslOK, s)"
| "steps (f # fs) s = (case f s of (eslOK, s') \<Rightarrow> steps fs s' | (eslEMEM, s') \<Rightarrow> (eslEMEM, s'))"

definition skip :: "mem \<Rightarrow> esl_status \<times> mem" where
  "skip s = (eslOK, s)"

text \<open>
  \<^verbatim>\<open>tbl[i]\<close> read as a pointer; outside the table, or for a pointer that is no table, the
  value is indeterminate.
\<close>

definition row_ptr :: "mem \<Rightarrow> ptr \<Rightarrow> nat \<Rightarrow> ptr" where
  "row_ptr s tbl i =
     (case load s tbl of Some (Ptrs xs) \<Rightarrow> (if i < length xs then xs ! i else Wild)
      | _ \<Rightarrow> Wild)"

subsection \<open>scoredata\_GetSSVScoreArrays (lines 58 to 118)\<close>

text \<open>Lines 93 and 94: \<^verbatim>\<open>ESL_ALLOC(tbl[i], 10 * sizeof(float))\<close>.\<close>

definition alloc_ext_row :: "ptr \<Rightarrow> nat \<Rightarrow> mem \<Rightarrow> esl_status \<times> mem" where
  "alloc_ext_row tbl i s =
     (let (p, s) = ESL_ALLOC (new_floats 10 s) s;
          s = set_row tbl i p s
      in (if p = Null then eslEMEM else eslOK, s))"

text \<open>
  Lines 96 to 111 on the rows that the two tables point at: the rows are read, the loops
  run on them, and each row \<open>1..M-1\<close> is written back to its block.
\<close>

definition ext_bounds :: "nat \<Rightarrow> ptr \<Rightarrow> ptr \<Rightarrow> ptr \<Rightarrow> mem \<Rightarrow> mem" where
  "ext_bounds M max_scores fwd_tbl rev_tbl s =
     (let (F, R) = ext_loop M (floats_at s max_scores) (rows_at s fwd_tbl, rows_at s rev_tbl);
          s = fold (\<lambda>i. store (row_ptr s fwd_tbl i) (Floats (F ! i))) [1..<M] s;
          s = fold (\<lambda>i. store (row_ptr s rev_tbl i) (Floats (R ! i))) [1..<M] s
      in s)"

definition scoredata_GetSSVScoreArrays ::
  "p7_config \<Rightarrow> P7_OPROFILE \<Rightarrow> P7_PROFILE option \<Rightarrow> ptr \<Rightarrow> mem \<Rightarrow> esl_status \<times> mem" where
  "scoredata_GetSSVScoreArrays c om gm data s =
     (let K = Kp (om_abc om);
          M = om_M om;
          s = set_sd data (\<lambda>d. d\<lparr>sd_M := M\<rparr>) s
      in case gm of
           None \<Rightarrow>
             (let s = set_sd data (\<lambda>d. d\<lparr>sd_type := p7_sd_std\<rparr>) s;
                  (p, s) = ESL_ALLOC (new_bytes ((M + 1) * K) s) s;
                  s = set_sd data (\<lambda>d. d\<lparr>ssv_scores := p\<rparr>) s
              in if p = Null then (eslEMEM, s)
                 else (eslOK,
                       store p (Bytes (fill_array (GetSSVEmissionScoreArray om) (bytes_at s p))) s))
         | Some gm \<Rightarrow>
             (let s = set_sd data (\<lambda>d. d\<lparr>sd_type := p7_sd_fm\<rparr>) s;
                  (p, s) = ESL_ALLOC (new_floats ((M + 1) * K) s) s;
                  s = set_sd data (\<lambda>d. d\<lparr>ssv_scores_f := p\<rparr>) s
              in if p = Null then (eslEMEM, s)
                 else
                   let (max_scores, s) = ESL_ALLOC (new_floats (M + 1) s) s
                   in if max_scores = Null then (eslEMEM, s)
                      else
                        let (sc, mx) = score_loop c (om_abc om) gm K M
                                         (floats_at s p, floats_at s max_scores);
                            s = store max_scores (Floats mx) (store p (Floats sc) s);
                            (fwd_tbl, s) = ESL_ALLOC (new_ptrs (M + 1)) s;
                            s = set_sd data (\<lambda>d. d\<lparr>opt_ext_fwd := fwd_tbl\<rparr>) s
                        in if fwd_tbl = Null then (eslEMEM, s)
                           else
                             let (rev_tbl, s) = ESL_ALLOC (new_ptrs (M + 1)) s;
                                 s = set_sd data (\<lambda>d. d\<lparr>opt_ext_rev := rev_tbl\<rparr>) s
                             in if rev_tbl = Null then (eslEMEM, s)
                                else
                                  case steps (concat (map (\<lambda>i. [alloc_ext_row fwd_tbl i,
                                                                 alloc_ext_row rev_tbl i]) [1..<M])) s
                                  of (eslEMEM, s) \<Rightarrow> (eslEMEM, s)
                                   | (eslOK, s) \<Rightarrow>
                                       (eslOK, free max_scores (ext_bounds M max_scores fwd_tbl rev_tbl s))))"

subsection \<open>p7\_hmm\_ScoreDataDestroy (lines 125 to 156)\<close>

definition free_rows :: "ptr \<Rightarrow> nat list \<Rightarrow> mem \<Rightarrow> mem" where
  "free_rows tbl rows s = free tbl (fold (\<lambda>i s. free (row_ptr s tbl i) s) rows s)"

definition p7_hmm_ScoreDataDestroy :: "p7_config \<Rightarrow> ptr \<Rightarrow> mem \<Rightarrow> mem" where
  "p7_hmm_ScoreDataDestroy c data s =
     (if data = Null then s
      else case load s data of
             Some (Struct d) \<Rightarrow>
               (let s = (if ssv_scores d \<noteq> Null then free (ssv_scores d) s else s);
                    s = (if prefix_lengths d \<noteq> Null then free (prefix_lengths d) s else s);
                    s = (if suffix_lengths d \<noteq> Null then free (suffix_lengths d) s else s);
                    s = (if fwd_scores d \<noteq> Null then free (fwd_scores d) s else s);
                    s = (if fwd_transitions d \<noteq> Null
                         then free_rows (fwd_transitions d) [0..<p7O_NTRANS c] s else s);
                    s = (if opt_ext_fwd d \<noteq> Null
                         then free_rows (opt_ext_fwd d) [1..<sd_M d] s else s);
                    s = (if opt_ext_rev d \<noteq> Null
                         then free_rows (opt_ext_rev d) [1..<sd_M d] s else s)
                in free data s)
           | _ \<Rightarrow> s\<lparr>fault := True\<rparr>)"

subsection \<open>p7\_hmm\_ScoreDataCreate (lines 176 to 200)\<close>

text \<open>
  Line 193 calls \<^verbatim>\<open>scoredata_GetSSVScoreArrays\<close> as a statement: the status it returns
  is dropped, and line 195 returns \<^verbatim>\<open>data\<close>.
\<close>

definition p7_hmm_ScoreDataCreate ::
  "p7_config \<Rightarrow> P7_OPROFILE \<Rightarrow> P7_PROFILE option \<Rightarrow> mem \<Rightarrow> ptr \<times> mem" where
  "p7_hmm_ScoreDataCreate c om gm s =
     (let (data, s) = ESL_ALLOC (Struct (indet_struct s)) s
      in if data = Null then (Null, p7_hmm_ScoreDataDestroy c data s)
         else
           let s = set_sd data (\<lambda>d. d\<lparr>ssv_scores := Null, ssv_scores_f := Null,
                                      opt_ext_fwd := Null, opt_ext_rev := Null,
                                      prefix_lengths := Null, suffix_lengths := Null,
                                      fwd_scores := Null, fwd_transitions := Null\<rparr>) s;
               (status, s) = scoredata_GetSSVScoreArrays c om gm data s
           in (data, s))"

subsection \<open>p7\_hmm\_ScoreDataClone (lines 221 to 290)\<close>

text \<open>
  The argument \<^verbatim>\<open>Kp\<close> of the function is \<open>kp\<close> below.
\<close>

text \<open>
  \<^verbatim>\<open>ESL_ALLOC(new->member, n * sizeof(element)); memcpy(new->member, src->member, ...)\<close>;
  \<open>mk\<close> is the kind of block and \<open>upd\<close> the assignment to the member.
\<close>

definition clone_array ::
  "(nat \<Rightarrow> mem \<Rightarrow> obj) \<Rightarrow> ptr \<Rightarrow> nat \<Rightarrow> (ptr \<Rightarrow> P7_SCOREDATA \<Rightarrow> P7_SCOREDATA) \<Rightarrow> ptr \<Rightarrow>
   mem \<Rightarrow> esl_status \<times> mem" where
  "clone_array mk src_arr n upd new s =
     (let (p, s) = ESL_ALLOC (mk n s) s;
          s = set_sd new (upd p) s
      in if p = Null then (eslEMEM, s) else (eslOK, memcpy p src_arr n s))"

definition clone_row :: "ptr \<Rightarrow> ptr \<Rightarrow> nat \<Rightarrow> nat \<Rightarrow> mem \<Rightarrow> esl_status \<times> mem" where
  "clone_row tbl src_tbl n i s =
     (let (p, s) = ESL_ALLOC (new_floats n s) s;
          s = set_row tbl i p s
      in if p = Null then (eslEMEM, s) else (eslOK, memcpy p (row_ptr s src_tbl i) n s))"

definition clone_rows ::
  "ptr \<Rightarrow> nat \<Rightarrow> nat list \<Rightarrow> nat \<Rightarrow> (ptr \<Rightarrow> P7_SCOREDATA \<Rightarrow> P7_SCOREDATA) \<Rightarrow> ptr \<Rightarrow>
   mem \<Rightarrow> esl_status \<times> mem" where
  "clone_rows src_tbl len rows n upd new s =
     (let (tbl, s) = ESL_ALLOC (new_ptrs len) s;
          s = set_sd new (upd tbl) s
      in if tbl = Null then (eslEMEM, s) else steps (map (clone_row tbl src_tbl n) rows) s)"

definition p7_hmm_ScoreDataClone :: "p7_config \<Rightarrow> ptr \<Rightarrow> nat \<Rightarrow> mem \<Rightarrow> ptr \<times> mem" where
  "p7_hmm_ScoreDataClone c src kp s =
     (if src = Null then (Null, s)
      else case load s src of
             Some (Struct d) \<Rightarrow>
               (let (new, s) = ESL_ALLOC (Struct (indet_struct s)) s
                in if new = Null then (Null, s)
                   else
                     let M = sd_M d;
                         s = set_sd new (\<lambda>n. n\<lparr>sd_M := M, sd_type := sd_type d,
                                ssv_scores := Null, opt_ext_fwd := Null, opt_ext_rev := Null,
                                prefix_lengths := Null, suffix_lengths := Null,
                                fwd_scores := Null, fwd_transitions := Null\<rparr>) s
                     in case steps
                          [if sd_type d = p7_sd_std
                           then clone_array new_bytes (ssv_scores d) ((M + 1) * kp)
                                  (\<lambda>p n. n\<lparr>ssv_scores := p\<rparr>) new
                           else clone_array new_floats (ssv_scores_f d) ((M + 1) * kp)
                                  (\<lambda>p n. n\<lparr>ssv_scores_f := p\<rparr>) new,
                           if prefix_lengths d \<noteq> Null
                           then clone_array new_floats (prefix_lengths d) (M + 1)
                                  (\<lambda>p n. n\<lparr>prefix_lengths := p\<rparr>) new
                           else skip,
                           if suffix_lengths d \<noteq> Null
                           then clone_array new_floats (suffix_lengths d) (M + 1)
                                  (\<lambda>p n. n\<lparr>suffix_lengths := p\<rparr>) new
                           else skip,
                           if fwd_scores d \<noteq> Null
                           then clone_array new_floats (fwd_scores d) (M + 1)
                                  (\<lambda>p n. n\<lparr>fwd_scores := p\<rparr>) new
                           else skip,
                           if opt_ext_fwd d \<noteq> Null
                           then clone_rows (opt_ext_fwd d) (M + 1) [1..<M] 10
                                  (\<lambda>p n. n\<lparr>opt_ext_fwd := p\<rparr>) new
                           else skip,
                           if opt_ext_rev d \<noteq> Null
                           then clone_rows (opt_ext_rev d) (M + 1) [1..<M] 10
                                  (\<lambda>p n. n\<lparr>opt_ext_rev := p\<rparr>) new
                           else skip,
                           if fwd_transitions d \<noteq> Null
                           then clone_rows (fwd_transitions d) (p7O_NTRANS c) [0..<p7O_NTRANS c]
                                  (M + 1) (\<lambda>p n. n\<lparr>fwd_transitions := p\<rparr>) new
                           else skip] s
                        of (eslOK, s) \<Rightarrow> (new, s)
                         | (eslEMEM, s) \<Rightarrow> (Null, s))
           | _ \<Rightarrow> (Wild, s\<lparr>fault := True\<rparr>))"

subsection \<open>p7\_hmm\_ScoreDataComputeRest (lines 316 to 363)\<close>

text \<open>An allocation followed by the call that fills the new array from the profile.\<close>

definition alloc_filled ::
  "nat \<Rightarrow> (nat \<Rightarrow> real option) \<Rightarrow> (ptr \<Rightarrow> mem \<Rightarrow> mem) \<Rightarrow> mem \<Rightarrow> esl_status \<times> mem" where
  "alloc_filled n f assign s =
     (let (p, s) = ESL_ALLOC (new_floats n s) s;
          s = assign p s
      in if p = Null then (eslEMEM, s)
         else (eslOK, store p (Floats (fill_array f (floats_at s p))) s))"

definition alloc_member ::
  "obj \<Rightarrow> (ptr \<Rightarrow> P7_SCOREDATA \<Rightarrow> P7_SCOREDATA) \<Rightarrow> ptr \<Rightarrow> mem \<Rightarrow> esl_status \<times> mem" where
  "alloc_member ob upd data s =
     (let (p, s) = ESL_ALLOC ob s;
          s = set_sd data (upd p) s
      in (if p = Null then eslEMEM else eslOK, s))"

text \<open>Lines 334 to 356, on the arrays that the structure points at.\<close>

definition compute_weights :: "p7_config \<Rightarrow> nat \<Rightarrow> ptr \<Rightarrow> mem \<Rightarrow> esl_status \<times> mem" where
  "compute_weights c M data s =
     (case load s data of
        Some (Struct d) \<Rightarrow>
          (let t_mis = floats_at s (row_ptr s (fwd_transitions d) (p7O_MI c));
               t_iis = floats_at s (row_ptr s (fwd_transitions d) (p7O_II c))
           in case window_weights c M t_mis t_iis
                     (floats_at s (prefix_lengths d), floats_at s (suffix_lengths d)) of
                None \<Rightarrow> (eslOK, s\<lparr>fault := True\<rparr>)
              | Some (P, S) \<Rightarrow>
                  (eslOK, store (suffix_lengths d) (Floats S)
                            (store (prefix_lengths d) (Floats P) s)))
      | _ \<Rightarrow> (eslOK, s\<lparr>fault := True\<rparr>))"

definition p7_hmm_ScoreDataComputeRest ::
  "p7_config \<Rightarrow> P7_OPROFILE \<Rightarrow> ptr \<Rightarrow> mem \<Rightarrow> esl_status \<times> mem" where
  "p7_hmm_ScoreDataComputeRest c om data s =
     (let K = Kp (om_abc om);
          M = om_M om
      in case steps
           ([alloc_filled (K * (M + 1)) (GetFwdEmissionScoreArray om)
               (\<lambda>p. set_sd data (\<lambda>d. d\<lparr>fwd_scores := p\<rparr>)),
             alloc_member (new_ptrs (p7O_NTRANS c)) (\<lambda>p d. d\<lparr>fwd_transitions := p\<rparr>) data] @
            map (\<lambda>i s. alloc_filled (M + 1) (GetFwdTransitionArray om i)
                         (set_row (case load s data of Some (Struct d) \<Rightarrow> fwd_transitions d
                                   | _ \<Rightarrow> Wild) i) s)
              [0..<p7O_NTRANS c] @
            [\<lambda>s. alloc_member (new_floats (M + 1) s) (\<lambda>p d. d\<lparr>prefix_lengths := p\<rparr>) data s,
             \<lambda>s. alloc_member (new_floats (M + 1) s) (\<lambda>p d. d\<lparr>suffix_lengths := p\<rparr>) data s,
             compute_weights c M data]) s
         of (eslOK, s) \<Rightarrow> (eslOK, s)
          | (eslEMEM, s) \<Rightarrow> (eslEMEM, p7_hmm_ScoreDataDestroy c data s))"

subsection \<open>Example inputs\<close>

text \<open>
  A configuration, an alphabet of two codes of which code 0 is a residue, and a profile of
  three positions whose match scores for code 0 are \<open>2\<close>, \<open>-1\<close> and \<open>3\<close>.
\<close>

definition example_config :: p7_config where
  "example_config = \<lparr>p7P_NR = 2, p7P_MSC = 0, p7O_NTRANS = 8, p7O_MI = 5, p7O_II = 6,
     p7_DEFAULT_WINDOW_BETA = 1 / 10000000\<rparr>"

definition example_alphabet :: ESL_ALPHABET where
  "example_alphabet = \<lparr>Kp = 2, XIsResidue = (\<lambda>x. x < 1)\<rparr>"

definition example_profile :: P7_PROFILE where
  "example_profile = \<lparr>rsc = (\<lambda>x k. [0, 0, 2, 0, - 1, 0, 3, 0] ! k)\<rparr>"


text \<open>
  An optimized profile of length \<open>M\<close> over the example alphabet, whose fill functions
  leave row 0 of an emission table alone and write the cell index into every later cell,
  and write \<open>1/2\<close> into every cell of a transition array. A memory with no live block
  in which \<open>n\<close> allocations succeed; fresh bytes read \<open>170\<close>, fresh floats \<open>7\<close>.
\<close>

definition example_oprofile :: "nat \<Rightarrow> P7_OPROFILE" where
  "example_oprofile M = \<lparr>om_abc = example_alphabet, om_M = M,
     GetSSVEmissionScoreArray = (\<lambda>k. if 2 \<le> k then Some (of_nat k) else None),
     GetFwdEmissionScoreArray = (\<lambda>k. if 2 \<le> k then Some (real k) else None),
     GetFwdTransitionArray = (\<lambda>t k. Some (1 / 2))\<rparr>"

definition example_memory :: "nat \<Rightarrow> mem" where
  "example_memory n = \<lparr>heap = (\<lambda>a. None), brk = 0, avail = n,
     indet_bytes = (\<lambda>k. 170), indet_floats = (\<lambda>k. 7),
     indet_struct = \<lparr>sd_type = p7_sd_std, sd_M = 0, ssv_scores = Wild, ssv_scores_f = Wild,
       prefix_lengths = Wild, suffix_lengths = Wild, fwd_scores = Wild, fwd_transitions = Wild,
       opt_ext_fwd = Wild, opt_ext_rev = Wild\<rparr>,
     fault = False\<rparr>"

section \<open>Properties of the numeric loops\<close>

declare ext_sum.simps [simp del] ext_fill.simps [simp del]

subsection \<open>The two inner loops of the extension bounds\<close>


lemma ext_sum_step:
  "j < 10 \<Longrightarrow> i + j + 1 \<le> M \<Longrightarrow>
   ext_sum M mx i j scf scr F R =
   ext_sum M mx i (Suc j) (scf + mx ! (i + j + 1)) (scr + mx ! (M - i - j))
     (F[i := (F ! i)[j := scf + mx ! (i + j + 1)]])
     (R[M - i := (R ! (M - i))[j := scr + mx ! (M - i - j)]])"
  by (subst ext_sum.simps) (simp add: Let_def)

lemma ext_sum_stop:
  "\<not> (j < 10 \<and> i + j + 1 \<le> M) \<Longrightarrow> ext_sum M mx i j scf scr F R = (j, F, R)"
  by (subst ext_sum.simps) auto

lemma ext_fill_step:
  "j < 10 \<Longrightarrow>
   ext_fill M i j F R =
   ext_fill M i (Suc j) (F[i := (F ! i)[j := F ! i ! (j - 1)]])
     (R[M - i := (R ! (M - i))[j := R ! (M - i) ! (j - 1)]])"
  by (subst ext_fill.simps) (simp add: Let_def)

lemma ext_fill_stop: "\<not> j < 10 \<Longrightarrow> ext_fill M i j F R = (F, R)"
  by (subst ext_fill.simps) simp



















subsection \<open>The score loop\<close>













subsection \<open>The window-weight loops\<close>








subsection \<open>The example, evaluated\<close>



subsection \<open>Raw lengths and window weights of the example\<close>




lemma raw_length_ge_2:
  assumes "0 < p7_DEFAULT_WINDOW_BETA c" "p7_DEFAULT_WINDOW_BETA c \<le> t_mi" "0 < t_ii" "t_ii < 1"
  shows "2 \<le> raw_length c t_mi t_ii"
proof -
  from assms have "0 < p7_DEFAULT_WINDOW_BETA c / t_mi" "p7_DEFAULT_WINDOW_BETA c / t_mi \<le> 1"
    by simp_all
  then have "ln (p7_DEFAULT_WINDOW_BETA c / t_mi) \<le> 0" by simp
  moreover from assms have "ln t_ii < 0" by simp
  ultimately have "0 \<le> ln (p7_DEFAULT_WINDOW_BETA c / t_mi) / ln t_ii"
    by (simp add: divide_nonpos_neg)
  then have "0 \<le> c_trunc (ln (p7_DEFAULT_WINDOW_BETA c / t_mi) / ln t_ii)"
    by (simp add: c_trunc_def)
  then show ?thesis by (simp add: raw_length_def)
qed






section \<open>Evaluating the functions on memory\<close>

lemmas mem_defs = ESL_ALLOC_def new_bytes_def new_floats_def new_ptrs_def free_def load_def
  store_def bytes_at_def floats_at_def ptrs_at_def rows_at_def set_sd_def set_row_def
  memcpy_def skip_def row_ptr_def

lemmas fn_defs = p7_hmm_ScoreDataCreate_def scoredata_GetSSVScoreArrays_def
  p7_hmm_ScoreDataDestroy_def p7_hmm_ScoreDataClone_def p7_hmm_ScoreDataComputeRest_def
  alloc_ext_row_def ext_bounds_def free_rows_def clone_array_def clone_row_def clone_rows_def
  alloc_filled_def alloc_member_def compute_weights_def score_loop_def score_row_def
  score_cell_def ext_loop_def ext_iter_def window_weights_def normalized_weights_def
  raw_step_def fill_array_def

lemmas example_defs = example_config_def example_alphabet_def example_profile_def
  example_oprofile_def example_memory_def

lemmas ext_eval = ext_sum_step ext_sum_stop ext_fill_step ext_fill_stop

lemma length_fill_array: "length (fill_array f arr) = length arr"
  by (simp add: fill_array_def)

lemma nth_fill_array:
  "k < length arr \<Longrightarrow> fill_array f arr ! k = (case f k of Some v \<Rightarrow> v | None \<Rightarrow> arr ! k)"
  by (simp add: fill_array_def split: option.split)

lemma cell_offset_less:
  fixes i M x K :: nat
  assumes "i \<le> M" "x < K"
  shows "i * K + x < (M + 1) * K"
proof -
  from assms(1) have "i * K \<le> M * K" by (rule mult_le_mono1)
  moreover have "(M + 1) * K = M * K + K" by simp
  ultimately show ?thesis using assms(2) by linarith
qed


section \<open>The claims\<close>



















text \<open>
  C5. \<^verbatim>\<open>p7_hmm_ScoreDataClone\<close> is to copy every populated field of the source, value
  for value. The evaluation below builds a quantized buffer of length 1 over two symbols,
  runs \<^verbatim>\<open>p7_hmm_ScoreDataComputeRest\<close> on it and clones it with \<^verbatim>\<open>Kp = 2\<close>. The
  source (block 0) has its \<^verbatim>\<open>fwd_scores\<close> in block 2, four floats as line 324
  allocates them (\<^verbatim>\<open>Kp * (M+1)\<close>); the clone (block 14) has its \<^verbatim>\<open>fwd_scores\<close> in
  block 18, two floats (\<^verbatim>\<open>M+1\<close>, lines 259 and 260): the scores of position 1 are not
  copied.
\<close>

theorem clone_truncates_fwd_scores:
  "(case p7_hmm_ScoreDataClone example_config (Addr 0) 2
           (snd (p7_hmm_ScoreDataComputeRest example_config (example_oprofile 1) (Addr 0)
              (snd (p7_hmm_ScoreDataCreate example_config (example_oprofile 1) None
                 (example_memory 100))))) of
      (new, s) \<Rightarrow> (new, map (heap s) [0, 2, 14, 18], fault s)) =
   (Addr 14,
    [Some (Struct \<lparr>sd_type = p7_sd_std, sd_M = 1, ssv_scores = Addr 1, ssv_scores_f = Null,
       prefix_lengths = Addr 12, suffix_lengths = Addr 13, fwd_scores = Addr 2,
       fwd_transitions = Addr 3, opt_ext_fwd = Null, opt_ext_rev = Null\<rparr>),
     Some (Floats [7, 7, 2, 3]),
     Some (Struct \<lparr>sd_type = p7_sd_std, sd_M = 1, ssv_scores = Addr 15, ssv_scores_f = Wild,
       prefix_lengths = Addr 16, suffix_lengths = Addr 17, fwd_scores = Addr 18,
       fwd_transitions = Addr 19, opt_ext_fwd = Null, opt_ext_rev = Null\<rparr>),
     Some (Floats [7, 7])],
    False)"
  by (simp add: fn_defs mem_defs example_defs ext_eval Let_def split_def upt_rec
      eval_nat_numeral)


text \<open>
  Two remarks on C6. With the table pointer also in \<^verbatim>\<open>ssv_scores\<close>, as it would be if
  the two members shared their storage, the same buffer is released completely. And a
  buffer whose construction stopped at a failed allocation (here the fifth: the table
  \<^verbatim>\<open>opt_ext_fwd\<close> exists and its rows were never assigned) makes
  \<^verbatim>\<open>p7_hmm_ScoreDataDestroy\<close> release indeterminate pointers, whatever the layout.
\<close>

lemma destroy_releases_aliased_table:
  "(case p7_hmm_ScoreDataDestroy example_config (Addr 0)
           (set_sd (Addr 0) (\<lambda>d. d\<lparr>ssv_scores := ssv_scores_f d\<rparr>)
              (snd (p7_hmm_ScoreDataCreate example_config (example_oprofile 2)
                 (Some example_profile) (example_memory 10)))) of
      s \<Rightarrow> (map (heap s) [0..<7], fault s)) =
   ([None, None, None, None, None, None, None], False)"
  by (simp add: fn_defs mem_defs example_defs ext_eval Let_def split_def upt_rec
      eval_nat_numeral)

lemma destroy_partial_buffer_faults:
  "(case p7_hmm_ScoreDataCreate example_config (example_oprofile 2) (Some example_profile)
           (example_memory 4) of
      (data, s) \<Rightarrow> (data, map (heap s) [0..<4], fault s)) =
   (Addr 0,
    [Some (Struct \<lparr>sd_type = p7_sd_fm, sd_M = 2, ssv_scores = Null, ssv_scores_f = Addr 1,
       prefix_lengths = Null, suffix_lengths = Null, fwd_scores = Null, fwd_transitions = Null,
       opt_ext_fwd = Addr 3, opt_ext_rev = Null\<rparr>),
     Some (Floats [7, 7, 2, 7, - 1, 7]),
     Some (Floats [7, 2, 0]),
     Some (Ptrs [Wild, Wild, Wild])],
    False) \<and>
   fault (p7_hmm_ScoreDataDestroy example_config (Addr 0)
           (snd (p7_hmm_ScoreDataCreate example_config (example_oprofile 2)
              (Some example_profile) (example_memory 4))))"
  by (simp add: fn_defs mem_defs example_defs ext_eval Let_def split_def upt_rec
      eval_nat_numeral)

text \<open>
  C7. \<^verbatim>\<open>p7_hmm_ScoreDataCreate\<close> is to return \<^verbatim>\<open>NULL\<close> whenever an allocation
  fails. With one allocation left, the structure is allocated, the allocation of the score
  table inside \<^verbatim>\<open>scoredata_GetSSVScoreArrays\<close> fails, and the function returns the
  structure all the same, with no score table, in either mode.
\<close>

theorem create_returns_partial_buffer:
  "fst (p7_hmm_ScoreDataCreate c om gm (s\<lparr>avail := 1\<rparr>)) = Addr (brk s) \<and>
   (\<exists>d. heap (snd (p7_hmm_ScoreDataCreate c om gm (s\<lparr>avail := 1\<rparr>))) (brk s) =
          Some (Struct d) \<and> ssv_scores d = Null \<and> ssv_scores_f d = Null) \<and>
   heap (snd (p7_hmm_ScoreDataCreate c om gm (s\<lparr>avail := 1\<rparr>))) (Suc (brk s)) =
     heap s (Suc (brk s)) \<and>
   brk (snd (p7_hmm_ScoreDataCreate c om gm (s\<lparr>avail := 1\<rparr>))) = Suc (brk s)"
  by (cases gm) (simp_all add: p7_hmm_ScoreDataCreate_def scoredata_GetSSVScoreArrays_def
      mem_defs Let_def split_def)

text \<open>
  C8. In quantized mode, when the two allocations succeed, \<^verbatim>\<open>p7_hmm_ScoreDataCreate\<close>
  returns a buffer of type \<^verbatim>\<open>p7_sd_std\<close> whose \<^verbatim>\<open>ssv_scores\<close> is a table of
  \<^verbatim>\<open>(M+1) * Kp\<close> bytes, and every cell of a position \<open>1..M\<close> holds the byte that
  \<^verbatim>\<open>p7_oprofile_GetSSVEmissionScoreArray\<close> writes there.
\<close>

theorem create_quantized_table:
  assumes enough: "2 \<le> avail s"
  shows "fst (p7_hmm_ScoreDataCreate c om None s) = Addr (brk s) \<and>
    (\<exists>d tbl. heap (snd (p7_hmm_ScoreDataCreate c om None s)) (brk s) = Some (Struct d) \<and>
       sd_type d = p7_sd_std \<and> sd_M d = om_M om \<and> ssv_scores d = Addr (Suc (brk s)) \<and>
       heap (snd (p7_hmm_ScoreDataCreate c om None s)) (Suc (brk s)) = Some (Bytes tbl) \<and>
       length tbl = (om_M om + 1) * Kp (om_abc om) \<and>
       (\<forall>i\<in>{1..om_M om}. \<forall>x<Kp (om_abc om). \<forall>v.
          GetSSVEmissionScoreArray om (i * Kp (om_abc om) + x) = Some v \<longrightarrow>
          tbl ! (i * Kp (om_abc om) + x) = v))"
proof -
  from enough obtain n where n: "avail s = Suc (Suc n)"
    by (metis add_2_eq_Suc le_Suc_ex)
  let ?K = "Kp (om_abc om)"
  let ?tbl = "fill_array (GetSSVEmissionScoreArray om) (map (indet_bytes s) [0..<(om_M om + 1) * ?K])"
  let ?d = "(indet_struct s)\<lparr>ssv_scores := Addr (Suc (brk s)), ssv_scores_f := Null,
      opt_ext_fwd := Null, opt_ext_rev := Null, prefix_lengths := Null, suffix_lengths := Null,
      fwd_scores := Null, fwd_transitions := Null, sd_M := om_M om, sd_type := p7_sd_std\<rparr>"
  have A: "fst (p7_hmm_ScoreDataCreate c om None s) = Addr (brk s)"
    using n by (simp add: p7_hmm_ScoreDataCreate_def scoredata_GetSSVScoreArrays_def mem_defs
        Let_def split_def)
  have B: "heap (snd (p7_hmm_ScoreDataCreate c om None s)) (brk s) = Some (Struct ?d)"
    using n by (simp add: p7_hmm_ScoreDataCreate_def scoredata_GetSSVScoreArrays_def mem_defs
        Let_def split_def)
  have C: "heap (snd (p7_hmm_ScoreDataCreate c om None s)) (Suc (brk s)) = Some (Bytes ?tbl)"
    using n by (simp add: p7_hmm_ScoreDataCreate_def scoredata_GetSSVScoreArrays_def mem_defs
        Let_def split_def)
  have D: "length ?tbl = (om_M om + 1) * ?K" by (simp add: length_fill_array)
  have E: "\<forall>i\<in>{1..om_M om}. \<forall>x<?K. \<forall>v.
      GetSSVEmissionScoreArray om (i * ?K + x) = Some v \<longrightarrow> ?tbl ! (i * ?K + x) = v"
  proof (intro ballI allI impI)
    fix i x v
    assume i: "i \<in> {1..om_M om}" and x: "x < ?K"
      and v: "GetSSVEmissionScoreArray om (i * ?K + x) = Some v"
    from i have "i \<le> om_M om" by simp
    from cell_offset_less [OF this x]
    have "i * ?K + x < length (map (indet_bytes s) [0..<(om_M om + 1) * ?K])" by simp
    from nth_fill_array [OF this] v show "?tbl ! (i * ?K + x) = v" by simp
  qed
  have F: "sd_type ?d = p7_sd_std \<and> sd_M ?d = om_M om \<and> ssv_scores ?d = Addr (Suc (brk s))"
    by simp
  from A B C D E F show ?thesis by blast
qed

theorem create_quantized_table_witness:
  "2 \<le> avail (example_memory 2) \<and>
   fst (p7_hmm_ScoreDataCreate example_config (example_oprofile 2) None (example_memory 2)) =
     Addr (brk (example_memory 2)) \<and>
   (\<exists>d tbl. heap (snd (p7_hmm_ScoreDataCreate example_config (example_oprofile 2) None
                         (example_memory 2))) (brk (example_memory 2)) = Some (Struct d) \<and>
      sd_type d = p7_sd_std \<and> sd_M d = om_M (example_oprofile 2) \<and>
      ssv_scores d = Addr (Suc (brk (example_memory 2))) \<and>
      heap (snd (p7_hmm_ScoreDataCreate example_config (example_oprofile 2) None
                   (example_memory 2))) (Suc (brk (example_memory 2))) = Some (Bytes tbl) \<and>
      length tbl = (om_M (example_oprofile 2) + 1) * Kp (om_abc (example_oprofile 2)) \<and>
      (\<forall>i\<in>{1..om_M (example_oprofile 2)}. \<forall>x<Kp (om_abc (example_oprofile 2)). \<forall>v.
         GetSSVEmissionScoreArray (example_oprofile 2)
           (i * Kp (om_abc (example_oprofile 2)) + x) = Some v \<longrightarrow>
         tbl ! (i * Kp (om_abc (example_oprofile 2)) + x) = v))"
proof -
  have h: "2 \<le> avail (example_memory 2)" by (simp add: example_memory_def)
  from h create_quantized_table [OF h] show ?thesis by (rule conjI)
qed

end
